theory Spec2Isabelle
  imports Main
begin

text \<open>
  A model of \<^verbatim>\<open>backbone.bootstrap-modal.js\<close>: a Backbone view that wraps the modal of
  Bootstrap.  The view, its options, its template and its five methods (\<open>initialize\<close>,
  \<open>render\<close>, \<open>open\<close>, \<open>close\<close>, \<open>preventClose\<close>) and its click handlers are functions on an
  explicit state: the instance, and the static \<open>Modal.count\<close> passed along with it.
  Everything that can be observed is appended to a trace, so that the order of events can
  be stated.
\<close>

section \<open>JavaScript values\<close>

text \<open>
  The scalar values an option of the Modal can hold.  Numbers are the integers (the
  open-count and key codes are integers); \<open>JNaN\<close> is the result of adding \<open>undefined\<close>
  to a number.
\<close>

datatype jsval = JUndefined | JNull | JBool bool | JNum int | JStr string | JNaN

datatype js_error = ReferenceError | TypeError

fun truthy :: "jsval \<Rightarrow> bool" where
  "truthy JUndefined = False"
| "truthy JNull = False"
| "truthy (JBool b) = b"
| "truthy (JNum n) = (n \<noteq> 0)"
| "truthy (JStr s) = (s \<noteq> [])"
| "truthy JNaN = False"

definition digit_char :: "nat \<Rightarrow> char" where
  "digit_char d = ''0123456789'' ! d"

fun show_nat :: "nat \<Rightarrow> string" where
  "show_nat n = (if n < 10 then [digit_char n] else show_nat (n div 10) @ [digit_char (n mod 10)])"

declare show_nat.simps [simp del]

definition show_int :: "int \<Rightarrow> string" where
  "show_int i = (if i < 0 then CHR ''-'' # show_nat (nat (- i)) else show_nat (nat i))"

text \<open>JavaScript's ToString on the values above.\<close>

fun to_string :: "jsval \<Rightarrow> string" where
  "to_string JUndefined = ''undefined''"
| "to_string JNull = ''null''"
| "to_string (JBool b) = (if b then ''true'' else ''false'')"
| "to_string (JNum n) = show_int n"
| "to_string (JStr s) = s"
| "to_string JNaN = ''NaN''"

text \<open>JavaScript's ToNumber, for the operands of \<open>+\<close> when neither is a string.\<close>

fun to_number :: "jsval \<Rightarrow> jsval" where
  "to_number JUndefined = JNaN"
| "to_number JNull = JNum 0"
| "to_number (JBool b) = JNum (if b then 1 else 0)"
| "to_number (JNum n) = JNum n"
| "to_number (JStr s) = JStr s"
| "to_number JNaN = JNaN"

text \<open>
  The binary \<open>+\<close> of JavaScript: if either operand is a string the other is converted
  to a string and the two are concatenated; otherwise both are converted to numbers
  and added, \<open>NaN\<close> absorbing.
\<close>

fun js_add :: "jsval \<Rightarrow> jsval \<Rightarrow> jsval" where
  "js_add (JStr a) v = JStr (a @ to_string v)"
| "js_add v (JStr b) = JStr (to_string v @ b)"
| "js_add v w =
     (case (to_number v, to_number w) of
        (JNum a, JNum b) \<Rightarrow> JNum (a + b)
      | _ \<Rightarrow> JNaN)"

text \<open>
  jQuery's \<open>.css(name, value)\<close> does not set a value that is \<open>null\<close>, \<open>undefined\<close> or
  \<open>NaN\<close>: the style keeps what it had.
\<close>

definition css_set :: "jsval \<Rightarrow> jsval \<Rightarrow> jsval" where
  "css_set v old = (if v = JNull \<or> v = JUndefined \<or> v = JNaN then old else v)"

text \<open>
  The numeric value of a string of decimal digits, which is how a z-index string is read.
\<close>

definition digit_val :: "char \<Rightarrow> nat" where
  "digit_val ch = of_char ch - 48"

definition parse_dec :: "string \<Rightarrow> nat" where
  "parse_dec s = foldl (\<lambda>a ch. 10 * a + digit_val ch) 0 s"


section \<open>Numbers that are not integers\<close>

text \<open>
  \<open>Number(width)\<close> can be any number, and half of it is taken.  \<open>Finite m e\<close> stands for
  \<open>m\<close> times ten to the power \<open>e\<close> (one number has several such forms); the arithmetic is
  exact, the rounding and the range of a double are not modelled.  \<open>Infinite neg\<close> is
  \<open>Infinity\<close>, negative if \<open>neg\<close>.
\<close>

datatype jsnumber = Finite int int | NaN | Infinite bool

fun number_truthy :: "jsnumber \<Rightarrow> bool" where
  "number_truthy (Finite m e) = (m \<noteq> 0)"
| "number_truthy NaN = False"
| "number_truthy (Infinite neg) = True"

text \<open>\<open>n * -1\<close> and \<open>n / 2\<close>\<close>

fun number_neg :: "jsnumber \<Rightarrow> jsnumber" where
  "number_neg (Finite m e) = Finite (- m) e"
| "number_neg NaN = NaN"
| "number_neg (Infinite neg) = Infinite (\<not> neg)"

fun number_half :: "jsnumber \<Rightarrow> jsnumber" where
  "number_half (Finite m e) = Finite (5 * m) (e - 1)"
| "number_half NaN = NaN"
| "number_half (Infinite neg) = Infinite neg"

text \<open>
  The conversion of a string to a number: white space is trimmed (the white space of
  ASCII here); the empty string is 0; then a hexadecimal, octal or binary integer
  without sign, or a decimal numeral with optional sign, fraction and exponent, or
  \<open>Infinity\<close>; anything else is \<open>NaN\<close>.
\<close>

definition is_digit :: "char \<Rightarrow> bool" where
  "is_digit ch = (ch \<in> set ''0123456789'')"

definition is_js_space :: "char \<Rightarrow> bool" where
  "is_js_space ch = (ch \<in> set [CHR 0x09, CHR 0x0A, CHR 0x0B, CHR 0x0C, CHR 0x0D, CHR 0x20])"

definition js_trim :: "string \<Rightarrow> string" where
  "js_trim s = rev (dropWhile is_js_space (rev (dropWhile is_js_space s)))"

definition radix_digit :: "char \<Rightarrow> nat option" where
  "radix_digit ch =
     (if ch \<in> set ''0123456789'' then Some (of_char ch - 48)
      else if ch \<in> set ''abcdef'' then Some (of_char ch - 87)
      else if ch \<in> set ''ABCDEF'' then Some (of_char ch - 55)
      else None)"

definition parse_radix :: "nat \<Rightarrow> string \<Rightarrow> jsnumber" where
  "parse_radix r ds =
     (if ds \<noteq> [] \<and> list_all (\<lambda>ch. case radix_digit ch of None \<Rightarrow> False | Some d \<Rightarrow> d < r) ds
      then Finite (int (foldl (\<lambda>a ch. r * a + (case radix_digit ch of None \<Rightarrow> 0 | Some d \<Rightarrow> d)) 0 ds)) 0
      else NaN)"

definition parse_exponent :: "string \<Rightarrow> int option" where
  "parse_exponent s =
     (case s of
        [] \<Rightarrow> Some 0
      | ch # t \<Rightarrow>
          if ch = CHR ''e'' \<or> ch = CHR ''E'' then
            (let (neg, ds) = (case t of
                                [] \<Rightarrow> (False, [])
                              | c # u \<Rightarrow> if c = CHR ''-'' then (True, u)
                                         else if c = CHR ''+'' then (False, u) else (False, t))
             in if ds \<noteq> [] \<and> list_all is_digit ds
                then Some (if neg then - int (parse_dec ds) else int (parse_dec ds))
                else None)
          else None)"

definition parse_unsigned :: "string \<Rightarrow> jsnumber" where
  "parse_unsigned s =
     (if s = ''Infinity'' then Infinite False
      else
        let ip = takeWhile is_digit s;
            r1 = dropWhile is_digit s;
            fp = (case r1 of
                    [] \<Rightarrow> []
                  | ch # t \<Rightarrow> if ch = CHR ''.'' then takeWhile is_digit t else []);
            r2 = (case r1 of
                    [] \<Rightarrow> []
                  | ch # t \<Rightarrow> if ch = CHR ''.'' then dropWhile is_digit t else r1)
        in if ip = [] \<and> fp = [] then NaN
           else (case parse_exponent r2 of
                   None \<Rightarrow> NaN
                 | Some e \<Rightarrow> Finite (int (parse_dec (ip @ fp))) (e - int (length fp))))"

definition string_to_number :: "string \<Rightarrow> jsnumber" where
  "string_to_number s =
     (let t = js_trim s in
      case t of
        [] \<Rightarrow> Finite 0 0
      | c # u \<Rightarrow>
          if c = CHR ''0'' \<and> u \<noteq> [] \<and> hd u \<in> set ''xX'' then parse_radix 16 (tl u)
          else if c = CHR ''0'' \<and> u \<noteq> [] \<and> hd u \<in> set ''oO'' then parse_radix 8 (tl u)
          else if c = CHR ''0'' \<and> u \<noteq> [] \<and> hd u \<in> set ''bB'' then parse_radix 2 (tl u)
          else if c = CHR ''-'' then number_neg (parse_unsigned u)
          else if c = CHR ''+'' then parse_unsigned u
          else parse_unsigned t)"

text \<open>\<open>Number(v)\<close> on the scalar values.\<close>

fun to_jsnumber :: "jsval \<Rightarrow> jsnumber" where
  "to_jsnumber JUndefined = NaN"
| "to_jsnumber JNull = Finite 0 0"
| "to_jsnumber (JBool b) = Finite (if b then 1 else 0) 0"
| "to_jsnumber (JNum n) = Finite n 0"
| "to_jsnumber (JStr s) = string_to_number s"
| "to_jsnumber JNaN = NaN"

text \<open>
  \<open>options.width\<close>: the value the caller supplied, or, once \<open>render\<close> has converted it, a
  number.
\<close>

datatype width_val = Supplied jsval | Converted jsnumber

fun width_truthy :: "width_val \<Rightarrow> bool" where
  "width_truthy (Supplied v) = truthy v"
| "width_truthy (Converted n) = number_truthy n"

fun js_Number :: "width_val \<Rightarrow> jsnumber" where
  "js_Number (Supplied v) = to_jsnumber v"
| "js_Number (Converted n) = n"

text \<open>jQuery's \<open>.css\<close> with a number: \<open>NaN\<close> is not set.\<close>

definition css_set_number :: "jsnumber \<Rightarrow> jsnumber option \<Rightarrow> jsnumber option" where
  "css_set_number n old = (if n = NaN then old else Some n)"


section \<open>Markup\<close>

text \<open>
  The markup the template produces, as a tree of elements with their classes.
  \<open>ViewEl\<close> is the element of a content view, which the Modal does not look into.
\<close>

datatype elem = Elem string "string list" "elem list" | Text string | ViewEl

fun descendants :: "elem \<Rightarrow> elem list" where
  "descendants (Elem tg cs kids) = concat (map (\<lambda>k. k # descendants k) kids)"
| "descendants (Text t) = []"
| "descendants ViewEl = []"

fun has_classes :: "string list \<Rightarrow> elem \<Rightarrow> bool" where
  "has_classes sel (Elem tg cs kids) = list_all (\<lambda>c. c \<in> set cs) sel"
| "has_classes sel (Text t) = False"
| "has_classes sel ViewEl = False"

text \<open>
  \<open>$el.find('.a.b')\<close>: the elements below the root that carry all the classes named,
  where \<open>kids\<close> is the content of the root.
\<close>

definition find_sel :: "string list \<Rightarrow> elem list \<Rightarrow> elem list" where
  "find_sel sel kids = filter (has_classes sel) (concat (map (\<lambda>k. k # descendants k) kids))"

text \<open>
  \<open>$el.find('.c').html(new)\<close>: every element of class \<open>c\<close> below the root gets
  \<open>new\<close> as its content.
\<close>

fun html_into :: "string \<Rightarrow> elem list \<Rightarrow> elem \<Rightarrow> elem" where
  "html_into c new (Elem tg cs kids) =
     (if c \<in> set cs then Elem tg cs new else Elem tg cs (map (html_into c new) kids))"
| "html_into c new (Text t) = Text t"
| "html_into c new ViewEl = ViewEl"


section \<open>Options\<close>

text \<open>
  \<open>options.content\<close> is documented as \<open>String|View\<close>.  An object is described by what
  the Modal asks of it: whether it has an \<open>$el\<close> (then it is rendered and inserted) and
  whether it has a \<open>trigger\<close> (then the events are forwarded to it).  \<open>Nullish\<close> is an
  explicit \<open>null\<close> or \<open>undefined\<close>.
\<close>

datatype content =
  Nullish | StringContent string | ObjectContent (has_el: bool) (has_trigger: bool)

text \<open>\<open>content && content.trigger\<close>\<close>

fun content_has_trigger :: "content option \<Rightarrow> bool" where
  "content_has_trigger (Some (ObjectContent el tr)) = tr"
| "content_has_trigger _ = False"

text \<open>
  \<open>allowCancel\<close> and \<open>escape\<close> are documented as Boolean, and \<open>focusOk\<close> and \<open>okCloses\<close>
  are only ever tested as flags; they are booleans here.  The texts, the title, the
  width supplied and the backdrop override can be any scalar.  \<open>content\<close> has no default:
  \<open>None\<close> is an options object without that key.
\<close>

record opts_data =
  title :: jsval
  okText :: jsval
  focusOk :: bool
  okCloses :: bool
  cancelText :: jsval
  allowCancel :: bool
  escape :: bool
  width :: width_val
  backdrop :: jsval
  content :: "content option"

text \<open>
  \<open>animate\<close> is a Boolean or a function.  \<open>template\<close> is the default template or a
  function supplied by the caller, which gets the options and returns markup (or throws).
\<close>

datatype animate = AnimateBool bool | AnimateHook

datatype template_fn = DefaultTemplate | CustomTemplate "opts_data \<Rightarrow> js_error + elem list"

record options = opts_data +
  animate :: animate
  template_opt :: template_fn

text \<open>One key of the options object passed to the constructor.\<close>

datatype opt =
    Title jsval | OkText jsval | FocusOk bool | OkCloses bool | CancelText jsval
  | AllowCancel bool | Escape bool | Animate animate | Template template_fn
  | Width jsval | Backdrop jsval | Content content

fun set_opt :: "opt \<Rightarrow> options \<Rightarrow> options" where
  "set_opt (Title v) opts = opts\<lparr>title := v\<rparr>"
| "set_opt (OkText v) opts = opts\<lparr>okText := v\<rparr>"
| "set_opt (FocusOk b) opts = opts\<lparr>focusOk := b\<rparr>"
| "set_opt (OkCloses b) opts = opts\<lparr>okCloses := b\<rparr>"
| "set_opt (CancelText v) opts = opts\<lparr>cancelText := v\<rparr>"
| "set_opt (AllowCancel b) opts = opts\<lparr>allowCancel := b\<rparr>"
| "set_opt (Escape b) opts = opts\<lparr>escape := b\<rparr>"
| "set_opt (Animate a) opts = opts\<lparr>animate := a\<rparr>"
| "set_opt (Template t) opts = opts\<lparr>template_opt := t\<rparr>"
| "set_opt (Width v) opts = opts\<lparr>width := Supplied v\<rparr>"
| "set_opt (Backdrop v) opts = opts\<lparr>backdrop := v\<rparr>"
| "set_opt (Content c) opts = opts\<lparr>content := Some c\<rparr>"

text \<open>\<open>_.extend(defaults, options)\<close>: the keys supplied overwrite the defaults, in order.\<close>

definition underscore_extend :: "options \<Rightarrow> opt list \<Rightarrow> options" where
  "underscore_extend defaults supplied = fold set_opt supplied defaults"

definition defaults :: options where
  "defaults =
     \<lparr> title = JNull, okText = JStr ''OK'', focusOk = True, okCloses = True,
       cancelText = JStr ''Cancel'', allowCancel = True, escape = True,
       width = Supplied JUndefined, backdrop = JUndefined, content = None,
       animate = AnimateBool False, template_opt = DefaultTemplate \<rparr>"


section \<open>The default template\<close>

text \<open>
  The interpolation \<open>{{x}}\<close> of underscore prints nothing for \<open>null\<close> and \<open>undefined\<close>
  and the string conversion of anything else.
\<close>

definition interp :: "jsval \<Rightarrow> string" where
  "interp v = (if v = JNull \<or> v = JUndefined then [] else to_string v)"

fun interp_content :: "content \<Rightarrow> string" where
  "interp_content Nullish = []"
| "interp_content (StringContent s) = s"
| "interp_content (ObjectContent el tr) = ''[object Object]''"

text \<open>
  The template is evaluated with the options as its scope (\<open>with\<close>).  Every name it
  reads has a default except \<open>content\<close>: without that key the name is unbound and the
  evaluation throws a ReferenceError.  The close icon is the multiplication sign, two
  bytes in UTF-8.
\<close>

definition template :: "'a opts_data_scheme \<Rightarrow> js_error + elem list" where
  "template opts =
     (case content opts of
        None \<Rightarrow> Inl ReferenceError
      | Some c \<Rightarrow> Inr (
          (if truthy (title opts) then
             [Elem ''div'' [''modal-header'']
                ((if allowCancel opts then [Elem ''a'' [''close''] [Text [CHR 0xC3, CHR 0x97]]] else [])
                 @ [Elem ''h3'' [] [Text (interp (title opts))]])]
           else [])
          @ [Elem ''div'' [''modal-body''] [Text (interp_content c)]]
          @ (if okText opts \<noteq> JBool False \<or> cancelText opts \<noteq> JBool False then
               [Elem ''div'' [''modal-footer'']
                  ((if allowCancel opts then
                      (if truthy (cancelText opts) then
                         [Elem ''a'' [''btn'', ''cancel''] [Text (interp (cancelText opts))]]
                       else [])
                    else [])
                   @ [Elem ''a'' [''btn'', ''ok'', ''btn-primary''] [Text (interp (okText opts))]])]
             else [])))"

definition apply_template :: "options \<Rightarrow> js_error + elem list" where
  "apply_template opts =
     (case template_opt opts of
        DefaultTemplate \<Rightarrow> template opts
      | CustomTemplate f \<Rightarrow> f (opts_data.truncate opts))"


section \<open>The Modal\<close>

text \<open>
  What can be observed of a Modal, in order: the events it emits (\<open>this.trigger\<close>), the
  events it forwards to its content (\<open>content.trigger(name, this)\<close>), its calls of the
  Dialog Widget, of the animate hook and of \<open>content.render()\<close>, the focus of the OK
  button, the removal of its element, the listeners of the caller that ran, and the
  signals and input events that reached it.
\<close>

datatype action =
    Emit string
  | Forward string
  | WidgetShow jsval jsval
  | WidgetHide
  | HookCall string
  | ContentRender
  | FocusOk_button
  | RemoveEl
  | Ran string
  | Signal string

text \<open>
  A listener registered on the Modal with \<open>on\<close>: the one \<open>open\<close> registers on "cancel",
  which calls \<open>close\<close>; a listener of the caller that calls \<open>preventClose\<close>; and any other
  listener of the caller, of which only its having run is recorded.
\<close>

datatype listener = SelfClose | Veto | Callback string

text \<open>
  The state of one Modal instance and of its element.  \<open>listeners\<close> are the handlers
  registered with \<open>on\<close>, in order, each under its event name.  The four counters are the
  one-shot handlers that \<open>open\<close> and \<open>close\<close> have attached with \<open>.one\<close> and that have not
  fired yet.  \<open>pending_hide\<close> counts the callbacks handed to the animate hook ("close")
  that the hook has not called yet.  \<open>widget_config\<close> is the configuration (keyboard,
  backdrop) the Dialog Widget was last given.
\<close>

record modal =
  options :: options
  isRendered :: bool
  preventClose_flag :: bool
  el_html :: "elem list"
  el_classes :: "string list"
  el_width :: "jsnumber option"
  el_marginLeft :: "jsnumber option"
  el_zindex :: jsval
  backdrop_zindex :: jsval
  in_document :: bool
  widget_config :: "(jsval \<times> jsval) option"
  listeners :: "(string \<times> listener) list"
  shown_handlers :: nat
  hidden_handlers :: nat
  backdrop_click_handlers :: nat
  keyup_handlers :: nat
  pending_hide :: nat
  trace :: "action list"

definition record_action :: "action \<Rightarrow> modal \<Rightarrow> modal" where
  "record_action a m = m\<lparr>trace := trace m @ [a]\<rparr>"

text \<open>
  The constructor: the view gets its element of class \<open>modal\<close>, not attached to the
  document, and \<open>initialize\<close> merges the options over the defaults.
\<close>

definition Modal_initialize :: "opt list \<Rightarrow> modal" where
  "Modal_initialize supplied =
     \<lparr> options = underscore_extend defaults supplied, isRendered = False, preventClose_flag = False,
       el_html = [], el_classes = [''modal''], el_width = None, el_marginLeft = None,
       el_zindex = JUndefined, backdrop_zindex = JUndefined, in_document = False,
       widget_config = None, listeners = [], shown_handlers = 0, hidden_handlers = 0,
       backdrop_click_handlers = 0, keyup_handlers = 0, pending_hide = 0, trace = [] \<rparr>"

text \<open>
  \<open>render\<close>.  A truthy width is converted to a number, stored back into the options
  and styled onto the element with its negated half as left margin (\<open>el_width\<close> and
  \<open>el_marginLeft\<close> are \<open>None\<close> while the element has no such style).  The animate hook is
  taken to return.  Reading \<open>content.$el\<close> throws a TypeError when \<open>content\<close> is
  \<open>undefined\<close> or \<open>null\<close>; a string has no \<open>$el\<close>.
\<close>

definition Modal_render :: "modal \<Rightarrow> js_error + modal" where
  "Modal_render m =
     (let opts = options m in
      case apply_template opts of
        Inl e \<Rightarrow> Inl e
      | Inr html \<Rightarrow>
          let m1 = m\<lparr>el_html := html\<rparr>;
              m2 = (if width_truthy (width opts) then
                      m1\<lparr>options := opts\<lparr>width := Converted (js_Number (width opts))\<rparr>,
                         el_width := css_set_number (js_Number (width opts)) (el_width m1),
                         el_marginLeft :=
                           css_set_number (number_neg (number_half (js_Number (width opts))))
                             (el_marginLeft m1)\<rparr>
                    else m1);
              m3 = (case animate opts of
                      AnimateBool b \<Rightarrow>
                        (if b then m2\<lparr>el_classes := el_classes m2 @ [''fade'']\<rparr> else m2)
                    | AnimateHook \<Rightarrow> record_action (HookCall ''open'') m2)
          in (case content opts of
                None \<Rightarrow> Inl TypeError
              | Some Nullish \<Rightarrow> Inl TypeError
              | Some (StringContent s) \<Rightarrow> Inr (m3\<lparr>isRendered := True\<rparr>)
              | Some (ObjectContent el tr) \<Rightarrow>
                  Inr ((if el then
                          (record_action ContentRender m3)
                            \<lparr>el_html := map (html_into ''modal-body'' [ViewEl]) (el_html m3)\<rparr>
                        else m3)\<lparr>isRendered := True\<rparr>)))"

text \<open>\<open>$el.modal('hide')\<close>\<close>

definition modal_hide :: "modal \<Rightarrow> modal" where
  "modal_hide m = record_action WidgetHide m"

definition Modal_preventClose :: "modal \<Rightarrow> modal" where
  "Modal_preventClose m = m\<lparr>preventClose_flag := True\<rparr>"

text \<open>
  \<open>close\<close>, on the Modal and the process-wide \<open>Modal.count\<close>.  With a function for
  \<open>animate\<close> the hide is left to the hook, which is handed the callback.
\<close>

definition Modal_close :: "modal \<times> int \<Rightarrow> modal \<times> int" where
  "Modal_close s =
     (case s of (m, count) \<Rightarrow>
        if preventClose_flag m then (m\<lparr>preventClose_flag := False\<rparr>, count)
        else
          let m1 = (case animate (options m) of
                      AnimateHook \<Rightarrow>
                        (record_action (HookCall ''close'') m)\<lparr>pending_hide := Suc (pending_hide m)\<rparr>
                    | AnimateBool b \<Rightarrow> modal_hide m)
          in (m1\<lparr>hidden_handlers := Suc (hidden_handlers m1)\<rparr>, count - 1))"

text \<open>
  An unvetoed \<open>close\<close> in its two parts: the request for the hide (to the animate hook,
  or \<open>$el.modal('hide')\<close>), and the statements after it, which attach the handler for
  "hidden" and decrement the open-count.
\<close>

definition close_request_hide :: "modal \<Rightarrow> modal" where
  "close_request_hide m =
     (case animate (options m) of
        AnimateHook \<Rightarrow>
          (record_action (HookCall ''close'') m)\<lparr>pending_hide := Suc (pending_hide m)\<rparr>
      | AnimateBool b \<Rightarrow> modal_hide m)"

definition close_attach_hidden :: "modal \<times> int \<Rightarrow> modal \<times> int" where
  "close_attach_hidden s =
     (case s of (m1, count) \<Rightarrow> (m1\<lparr>hidden_handlers := Suc (hidden_handlers m1)\<rparr>, count - 1))"

text \<open>The animate hook calls the callback it was handed: \<open>$el.modal('hide')\<close>.\<close>

definition hook_callback :: "modal \<Rightarrow> modal" where
  "hook_callback m =
     (if pending_hide m = 0 then m else modal_hide (m\<lparr>pending_hide := pending_hide m - 1\<rparr>))"

text \<open>\<open>this.on(name, listener)\<close> and \<open>this.trigger(name)\<close> of Backbone.\<close>

definition on :: "string \<Rightarrow> listener \<Rightarrow> modal \<Rightarrow> modal" where
  "on ev l m = m\<lparr>listeners := listeners m @ [(ev, l)]\<rparr>"

fun run_listener :: "listener \<Rightarrow> modal \<times> int \<Rightarrow> modal \<times> int" where
  "run_listener SelfClose s = Modal_close s"
| "run_listener Veto (m, count) = (Modal_preventClose m, count)"
| "run_listener (Callback n) (m, count) = (record_action (Ran n) m, count)"

definition listeners_for :: "string \<Rightarrow> modal \<Rightarrow> listener list" where
  "listeners_for ev m = map snd (filter (\<lambda>p. fst p = ev) (listeners m))"

definition trigger :: "string \<Rightarrow> modal \<times> int \<Rightarrow> modal \<times> int" where
  "trigger ev s =
     (case s of (m, count) \<Rightarrow>
        fold run_listener (listeners_for ev m) (record_action (Emit ev) m, count))"

text \<open>
  \<open>if (this.options.content && this.options.content.trigger)
      this.options.content.trigger(name, this)\<close>
\<close>

definition content_trigger :: "string \<Rightarrow> modal \<Rightarrow> modal" where
  "content_trigger ev m =
     (if content_has_trigger (content (options m)) then record_action (Forward ev) m else m)"

definition forward :: "string \<Rightarrow> modal \<times> int \<Rightarrow> modal \<times> int" where
  "forward ev s = (case s of (m, count) \<Rightarrow> (content_trigger ev m, count))"

text \<open>The three delegated click handlers of \<open>events\<close>.\<close>

definition click_close :: "modal \<times> int \<Rightarrow> modal \<times> int" where
  "click_close s = forward ''cancel'' (trigger ''cancel'' s)"

definition click_cancel :: "modal \<times> int \<Rightarrow> modal \<times> int" where
  "click_cancel s = forward ''cancel'' (trigger ''cancel'' s)"

definition click_ok :: "modal \<times> int \<Rightarrow> modal \<times> int" where
  "click_ok s =
     (let s1 = forward ''ok'' (trigger ''ok'' s)
      in if okCloses (options (fst s1)) then Modal_close s1 else s1)"

text \<open>
  \<open>open\<close>.  \<open>bd\<close> is what the page holds at \<open>$('.modal-backdrop:eq(' + numModals + ')')\<close>:
  \<open>None\<close> when no element matches (then \<open>.css('z-index')\<close> is \<open>undefined\<close> and \<open>.css\<close> and
  \<open>.one\<close> on the empty set do nothing), \<open>Some z\<close> for a backdrop whose z-index reads \<open>z\<close>.
  \<open>cb\<close> is the optional callback.

  Modelled from the spec: the Dialog Widget is not part of the repository.  Given the
  element it displays it (the element is in the document from then on), and it emits its
  "shown" and "hidden" signals when the display or the hide is complete; they are the
  steps \<open>dom_shown\<close> and \<open>dom_hidden\<close> below.  A signal that arrives after \<open>close\<close> has returned
  is \<open>dom_hidden\<close> after \<open>Modal_close\<close>; a widget that completes the hide inside
  \<open>$el.modal('hide')\<close>, as the modal of Bootstrap 2 does without the class \<open>fade\<close>, emits
  it between \<open>close_request_hide\<close> and \<open>close_attach_hidden\<close>.
\<close>

definition widget_backdrop :: "options \<Rightarrow> jsval" where
  "widget_backdrop opts =
     (if truthy (backdrop opts) \<or> backdrop opts = JUndefined
      then (if allowCancel opts then JBool True else JStr ''static'')
      else backdrop opts)"

definition modal_show :: "jsval \<Rightarrow> jsval \<Rightarrow> modal \<Rightarrow> modal" where
  "modal_show keyboard bdrop m =
     (record_action (WidgetShow keyboard bdrop) m)
       \<lparr>widget_config := Some (keyboard, bdrop), in_document := True\<rparr>"

text \<open>The statements of \<open>open\<close> after the rendering; \<open>count\<close> is \<open>Modal.count\<close> on entry.\<close>

definition open_rendered :: "string option \<Rightarrow> listener option \<Rightarrow> int \<Rightarrow> modal \<Rightarrow> modal" where
  "open_rendered bd cb count m1 =
     (let opts = options m1;
          m2 = modal_show (JBool (allowCancel opts)) (widget_backdrop opts) m1;
          m3 = m2\<lparr>shown_handlers := Suc (shown_handlers m2)\<rparr>;
          numModals = count;
          backdropIndex = (case bd of None \<Rightarrow> JUndefined | Some z \<Rightarrow> JStr z);
          elIndex = (case bd of None \<Rightarrow> JUndefined | Some z \<Rightarrow> JStr z);
          m4 = m3\<lparr>backdrop_zindex :=
                    (case bd of
                       None \<Rightarrow> backdrop_zindex m3
                     | Some z \<Rightarrow>
                         css_set (js_add backdropIndex (JNum numModals)) (backdrop_zindex m3)),
                  el_zindex := css_set (js_add elIndex (JNum numModals)) (el_zindex m3)\<rparr>;
          m5 = (if allowCancel opts then
                  m4\<lparr>backdrop_click_handlers :=
                       (case bd of
                          None \<Rightarrow> backdrop_click_handlers m4
                        | Some z \<Rightarrow> Suc (backdrop_click_handlers m4)),
                     keyup_handlers := Suc (keyup_handlers m4)\<rparr>
                else m4);
          m6 = on ''cancel'' SelfClose m5
      in (case cb of None \<Rightarrow> m6 | Some l \<Rightarrow> on ''ok'' l m6))"

definition Modal_open ::
  "string option \<Rightarrow> listener option \<Rightarrow> modal \<times> int \<Rightarrow> js_error + modal \<times> int" where
  "Modal_open bd cb s =
     (case s of (m, count) \<Rightarrow>
       (case (if isRendered m then Inr m else Modal_render m) of
          Inl e \<Rightarrow> Inl e
        | Inr m1 \<Rightarrow> Inr (open_rendered bd cb count m1, count + 1)))"


section \<open>Signals and input events\<close>

text \<open>The handler \<open>open\<close> attaches to the element for "shown".\<close>

definition on_shown :: "modal \<times> int \<Rightarrow> modal \<times> int" where
  "on_shown s =
     (case s of (m, count) \<Rightarrow>
        let m1 = (if focusOk (options m) \<and> find_sel [''btn'', ''ok''] (el_html m) \<noteq> []
                  then record_action FocusOk_button m else m)
        in trigger ''shown'' (content_trigger ''shown'' m1, count))"

text \<open>The handler \<open>close\<close> attaches to the element for "hidden"; \<open>remove\<close> is Backbone's.\<close>

definition remove :: "modal \<Rightarrow> modal" where
  "remove m = (record_action RemoveEl m)\<lparr>in_document := False\<rparr>"

definition on_hidden :: "modal \<times> int \<Rightarrow> modal \<times> int" where
  "on_hidden s =
     (case s of (m, count) \<Rightarrow> trigger ''hidden'' (content_trigger ''hidden'' (remove m), count))"

text \<open>The handler \<open>open\<close> attaches to the backdrop for a click.\<close>

definition on_backdrop_click :: "modal \<times> int \<Rightarrow> modal \<times> int" where
  "on_backdrop_click s = trigger ''cancel'' (forward ''cancel'' s)"

text \<open>The handler \<open>open\<close> attaches to the document for a key release; \<open>which\<close> is the key code.\<close>

definition on_keyup :: "int \<Rightarrow> modal \<times> int \<Rightarrow> modal \<times> int" where
  "on_keyup which s =
     (let s1 = (if which = 27 then trigger ''cancel'' s else s)
      in if content_has_trigger (content (options (fst s1)))
         then (if which = 27 then (record_action (Forward ''shown'') (fst s1), snd s1) else s1)
         else s1)"

text \<open>
  An event reaches the element (or the backdrop, or the document): every one-shot handler
  attached for it runs once, in the order of attachment, and is detached.
\<close>

definition dom_shown :: "modal \<times> int \<Rightarrow> modal \<times> int" where
  "dom_shown s =
     (case s of (m, count) \<Rightarrow>
        (on_shown ^^ shown_handlers m)
          ((record_action (Signal ''shown'') m)\<lparr>shown_handlers := 0\<rparr>, count))"

definition dom_hidden :: "modal \<times> int \<Rightarrow> modal \<times> int" where
  "dom_hidden s =
     (case s of (m, count) \<Rightarrow>
        (on_hidden ^^ hidden_handlers m)
          ((record_action (Signal ''hidden'') m)\<lparr>hidden_handlers := 0\<rparr>, count))"

definition backdrop_click :: "modal \<times> int \<Rightarrow> modal \<times> int" where
  "backdrop_click s =
     (case s of (m, count) \<Rightarrow>
        (on_backdrop_click ^^ backdrop_click_handlers m)
          (m\<lparr>backdrop_click_handlers := 0\<rparr>, count))"

definition keyup :: "int \<Rightarrow> modal \<times> int \<Rightarrow> modal \<times> int" where
  "keyup which s =
     (case s of (m, count) \<Rightarrow>
        (on_keyup which ^^ keyup_handlers m) (m\<lparr>keyup_handlers := 0\<rparr>, count))"


section \<open>Notions used in the statements\<close>

text \<open>The Modal with its \<open>escape\<close> option changed.\<close>

definition set_escape :: "bool \<Rightarrow> modal \<Rightarrow> modal" where
  "set_escape e m = m\<lparr>options := (options m)\<lparr>escape := e\<rparr>\<rparr>"

text \<open>An options object without the key \<open>content\<close>.\<close>

definition no_content_key :: "opt list \<Rightarrow> bool" where
  "no_content_key supplied = list_all (\<lambda>x. case x of Content c \<Rightarrow> False | _ \<Rightarrow> True) supplied"

text \<open>What the caller's listeners leave in the trace when they run.\<close>

fun ran_trace :: "listener list \<Rightarrow> action list" where
  "ran_trace [] = []"
| "ran_trace (Callback n # ls) = Ran n # ran_trace ls"
| "ran_trace (l # ls) = ran_trace ls"

text \<open>What forwarding an event to the content leaves in the trace.\<close>

definition forwarded :: "string \<Rightarrow> modal \<Rightarrow> action list" where
  "forwarded ev m = (if content_has_trigger (content (options m)) then [Forward ev] else [])"

text \<open>How \<open>close\<close> asks for the hide: from the animate hook if there is one, else from the widget.\<close>

definition hide_request :: "modal \<Rightarrow> action" where
  "hide_request m =
     (case animate (options m) of AnimateHook \<Rightarrow> HookCall ''close'' | AnimateBool b \<Rightarrow> WidgetHide)"


text \<open>
  Modals opened one after the other, none closed in between.  Each finds its own
  backdrop, whose z-index reads \<open>bd\<close> (the value of the style sheet).
\<close>

fun open_all :: "string option \<Rightarrow> modal list \<Rightarrow> int \<Rightarrow> js_error + modal list \<times> int" where
  "open_all bd [] count = Inr ([], count)"
| "open_all bd (m # ms) count =
     (case Modal_open bd None (m, count) of
        Inl e \<Rightarrow> Inl e
      | Inr (m1, c1) \<Rightarrow>
          (case open_all bd ms c1 of
             Inl e \<Rightarrow> Inl e
           | Inr (ms1, c2) \<Rightarrow> Inr (m1 # ms1, c2)))"

text \<open>The number a z-index style stands for, when it is a string of digits or a number.\<close>

fun zindex_value :: "jsval \<Rightarrow> nat" where
  "zindex_value (JStr s) = parse_dec s"
| "zindex_value (JNum n) = nat n"
| "zindex_value v = 0"

text \<open>
  The z-indexes \<open>zs\<close> of modals 0, 1, 2, ... differ, each from the one before, by a delta
  proportional to its number \<open>k\<close>: the delta of modal \<open>k\<close> is \<open>k\<close> times that of modal 1.
\<close>

definition delta_proportional :: "nat list \<Rightarrow> bool" where
  "delta_proportional zs =
     list_all (\<lambda>k. int (zs ! k) - int (zs ! (k - 1)) = int k * (int (zs ! 1) - int (zs ! 0)))
       [1..<length zs]"


section \<open>Basic facts\<close>

lemma record_action_simps [simp]:
  "trace (record_action a m) = trace m @ [a]"
  "options (record_action a m) = options m"
  "preventClose_flag (record_action a m) = preventClose_flag m"
  "in_document (record_action a m) = in_document m"
  "listeners (record_action a m) = listeners m"
  "hidden_handlers (record_action a m) = hidden_handlers m"
  "shown_handlers (record_action a m) = shown_handlers m"
  "keyup_handlers (record_action a m) = keyup_handlers m"
  "backdrop_click_handlers (record_action a m) = backdrop_click_handlers m"
  "pending_hide (record_action a m) = pending_hide m"
  "widget_config (record_action a m) = widget_config m"
  "isRendered (record_action a m) = isRendered m"
  "el_zindex (record_action a m) = el_zindex m"
  "backdrop_zindex (record_action a m) = backdrop_zindex m"
  "el_html (record_action a m) = el_html m"
  by (simp_all add: record_action_def)

lemma Modal_close_pair:
  "Modal_close (m, count) =
     (if preventClose_flag m then (m\<lparr>preventClose_flag := False\<rparr>, count)
      else ((case animate (options m) of
               AnimateHook \<Rightarrow>
                 (record_action (HookCall ''close'') m)\<lparr>pending_hide := Suc (pending_hide m)\<rparr>
             | AnimateBool b \<Rightarrow> modal_hide m)\<lparr>hidden_handlers := Suc (hidden_handlers m)\<rparr>,
            count - 1))"
  by (simp add: Modal_close_def Let_def modal_hide_def split: animate.splits)

lemma Modal_close_parts:
  "Modal_close (m, count) =
     (if preventClose_flag m then (m\<lparr>preventClose_flag := False\<rparr>, count)
      else close_attach_hidden (close_request_hide m, count))"
  by (simp add: Modal_close_pair close_attach_hidden_def close_request_hide_def modal_hide_def
      split: animate.splits)

lemma close_effect:
  "trace (fst (Modal_close (m, count))) =
     trace m @ (if preventClose_flag m then [] else [hide_request m])"
  "snd (Modal_close (m, count)) = (if preventClose_flag m then count else count - 1)"
  "options (fst (Modal_close (m, count))) = options m"
  "in_document (fst (Modal_close (m, count))) = in_document m"
  "hidden_handlers (fst (Modal_close (m, count))) =
     (if preventClose_flag m then hidden_handlers m else Suc (hidden_handlers m))"
  by (simp_all add: Modal_close_pair hide_request_def modal_hide_def split: animate.splits)

lemma hook_callback_simps [simp]:
  "hidden_handlers (hook_callback m) = hidden_handlers m"
  "in_document (hook_callback m) = in_document m"
  "options (hook_callback m) = options m"
  "listeners (hook_callback m) = listeners m"
  "preventClose_flag (hook_callback m) = preventClose_flag m"
  by (simp_all add: hook_callback_def modal_hide_def)

text \<open>\<open>render\<close> changes no option but the width.\<close>

lemma same_but_width:
  assumes "opts' = opts\<lparr>width := w\<rparr>"
  shows "allowCancel opts' = allowCancel opts" "widget_backdrop opts' = widget_backdrop opts"
    "content opts' = content opts" "okCloses opts' = okCloses opts"
    "focusOk opts' = focusOk opts" "animate opts' = animate opts"
    "escape opts' = escape opts" "template_opt opts' = template_opt opts"
  by (simp_all add: assms widget_backdrop_def)

lemma render_preserves:
  assumes "Modal_render m = Inr m'"
  shows "options m' = (options m)\<lparr>width := width (options m')\<rparr>"
    "preventClose_flag m' = preventClose_flag m"
    "listeners m' = listeners m" "hidden_handlers m' = hidden_handlers m"
    "shown_handlers m' = shown_handlers m" "keyup_handlers m' = keyup_handlers m"
    "backdrop_click_handlers m' = backdrop_click_handlers m" "pending_hide m' = pending_hide m"
    "el_zindex m' = el_zindex m" "backdrop_zindex m' = backdrop_zindex m" "isRendered m'"
  using assms
  by (auto simp: Modal_render_def Let_def
      split: sum.splits option.splits content.splits animate.splits if_splits)

lemma rendered_preserves:
  assumes "(if isRendered m then Inr m else Modal_render m) = Inr m'"
  shows "options m' = (options m)\<lparr>width := width (options m')\<rparr>"
    "preventClose_flag m' = preventClose_flag m"
    "listeners m' = listeners m" "hidden_handlers m' = hidden_handlers m"
    "shown_handlers m' = shown_handlers m" "keyup_handlers m' = keyup_handlers m"
    "backdrop_click_handlers m' = backdrop_click_handlers m" "pending_hide m' = pending_hide m"
    "el_zindex m' = el_zindex m" "backdrop_zindex m' = backdrop_zindex m" "isRendered m'"
  using assms render_preserves [of m m']
  by (auto split: if_splits)

text \<open>What a successful \<open>open\<close> leaves behind, field by field.\<close>

lemma open_Inr:
  assumes "Modal_open bd cb (m, count) = Inr (m1, c1)"
  shows "c1 = count + 1"
    and "options m1 = (options m)\<lparr>width := width (options m1)\<rparr>"
    and "preventClose_flag m1 = preventClose_flag m"
    and "in_document m1"
    and "widget_config m1 = Some (JBool (allowCancel (options m)), widget_backdrop (options m))"
    and "listeners m1 =
           listeners m @ (''cancel'', SelfClose) # (case cb of None \<Rightarrow> [] | Some l \<Rightarrow> [(''ok'', l)])"
    and "hidden_handlers m1 = hidden_handlers m"
    and "pending_hide m1 = pending_hide m"
    and "shown_handlers m1 = Suc (shown_handlers m)"
    and "keyup_handlers m1 =
           (if allowCancel (options m) then Suc (keyup_handlers m) else keyup_handlers m)"
    and "backdrop_click_handlers m1 =
           (if allowCancel (options m) \<and> bd \<noteq> None then Suc (backdrop_click_handlers m)
            else backdrop_click_handlers m)"
    and "el_zindex m1 = (case bd of None \<Rightarrow> el_zindex m | Some z \<Rightarrow> JStr (z @ show_int count))"
    and "backdrop_zindex m1 =
           (case bd of None \<Rightarrow> backdrop_zindex m | Some z \<Rightarrow> JStr (z @ show_int count))"
proof -
  from assms obtain m0 where r: "(if isRendered m then Inr m else Modal_render m) = Inr m0"
    by (auto simp: Modal_open_def split: sum.splits if_splits)
  note p = rendered_preserves(2-) [OF r] same_but_width [OF rendered_preserves(1) [OF r]]
  from assms r have e: "m1 = open_rendered bd cb count m0" and c: "c1 = count + 1"
    by (auto simp: Modal_open_def split: sum.splits if_splits)
  note d = e open_rendered_def Let_def on_def modal_show_def
  show "c1 = count + 1" by (rule c)
  show "options m1 = (options m)\<lparr>width := width (options m1)\<rparr>"
    using rendered_preserves(1) [OF r] by (simp add: d split: option.splits)
  show "preventClose_flag m1 = preventClose_flag m" using p by (simp add: d split: option.splits)
  show "in_document m1" by (simp add: d split: option.splits)
  show "widget_config m1 = Some (JBool (allowCancel (options m)), widget_backdrop (options m))"
    using p by (simp add: d split: option.splits)
  show "listeners m1 =
          listeners m @ (''cancel'', SelfClose) # (case cb of None \<Rightarrow> [] | Some l \<Rightarrow> [(''ok'', l)])"
    using p by (simp add: d split: option.splits)
  show "hidden_handlers m1 = hidden_handlers m" using p by (simp add: d split: option.splits)
  show "pending_hide m1 = pending_hide m" using p by (simp add: d split: option.splits)
  show "shown_handlers m1 = Suc (shown_handlers m)" using p by (simp add: d split: option.splits)
  show "keyup_handlers m1 =
          (if allowCancel (options m) then Suc (keyup_handlers m) else keyup_handlers m)"
    using p by (simp add: d split: option.splits)
  show "backdrop_click_handlers m1 =
          (if allowCancel (options m) \<and> bd \<noteq> None then Suc (backdrop_click_handlers m)
           else backdrop_click_handlers m)"
    using p by (simp add: d split: option.splits)
  show "el_zindex m1 = (case bd of None \<Rightarrow> el_zindex m | Some z \<Rightarrow> JStr (z @ show_int count))"
    using p by (simp add: d css_set_def split: option.splits)
  show "backdrop_zindex m1 =
          (case bd of None \<Rightarrow> backdrop_zindex m | Some z \<Rightarrow> JStr (z @ show_int count))"
    using p by (simp add: d css_set_def split: option.splits)
qed

text \<open>
  \<open>render\<close> returns exactly when the template returns markup and \<open>content\<close> is a string or
  an object; \<open>open\<close> returns when the Modal is already rendered or \<open>render\<close> returns.
\<close>

lemma render_Inr_iff:
  "(\<exists>m'. Modal_render m = Inr m') \<longleftrightarrow>
     (\<exists>html c. apply_template (options m) = Inr html \<and> content (options m) = Some c \<and> c \<noteq> Nullish)"
  by (auto simp: Modal_render_def Let_def split: sum.splits option.splits content.splits)

lemma open_returns:
  assumes "(if isRendered m then Inr m else Modal_render m) = Inr m0"
  shows "Modal_open bd cb (m, count) = Inr (open_rendered bd cb count m0, count + 1)"
  using assms by (simp add: Modal_open_def)

lemma initialize_fresh:
  "\<not> isRendered (Modal_initialize supplied)" "\<not> preventClose_flag (Modal_initialize supplied)"
  "listeners (Modal_initialize supplied) = []" "hidden_handlers (Modal_initialize supplied) = 0"
  "keyup_handlers (Modal_initialize supplied) = 0"
  "backdrop_click_handlers (Modal_initialize supplied) = 0"
  "pending_hide (Modal_initialize supplied) = 0"
  "options (Modal_initialize supplied) = fold set_opt supplied defaults"
  by (simp_all add: Modal_initialize_def underscore_extend_def)

subsection \<open>Listeners\<close>

lemma ran_trace_append [simp]: "ran_trace (xs @ ys) = ran_trace xs @ ran_trace ys"
  by (induction xs rule: ran_trace.induct) auto

lemma listeners_for_subset: "set (listeners_for ev m) \<subseteq> snd ` set (listeners m)"
  by (auto simp: listeners_for_def)

text \<open>
  Listeners of the caller only append to the trace and may set the veto; the open-count
  is not theirs to change.
\<close>

lemma fold_user_listeners:
  "SelfClose \<notin> set ls \<Longrightarrow>
   fold run_listener ls (m, count) =
     (m\<lparr>preventClose_flag := preventClose_flag m \<or> Veto \<in> set ls,
        trace := trace m @ ran_trace ls\<rparr>, count)"
proof (induction ls arbitrary: m)
  case Nil
  then show ?case by simp
next
  case (Cons l ls)
  then show ?case
    by (cases l) (auto simp: Modal_preventClose_def record_action_def)
qed

lemma trigger_user:
  assumes "SelfClose \<notin> set (listeners_for ev m)"
  shows "trigger ev (m, count) =
     (m\<lparr>preventClose_flag := preventClose_flag m \<or> Veto \<in> set (listeners_for ev m),
        trace := trace m @ Emit ev # ran_trace (listeners_for ev m)\<rparr>, count)"
proof -
  have l: "listeners_for ev (record_action (Emit ev) m) = listeners_for ev m"
    by (simp add: listeners_for_def)
  show ?thesis
    using fold_user_listeners [OF assms, of "record_action (Emit ev) m" count]
    by (simp add: trigger_def record_action_def)
qed

lemma trigger_wired:
  assumes "listeners_for ev m = ls @ [SelfClose]" and "SelfClose \<notin> set ls"
  shows "trigger ev (m, count) =
     Modal_close (m\<lparr>preventClose_flag := preventClose_flag m \<or> Veto \<in> set ls,
        trace := trace m @ Emit ev # ran_trace ls\<rparr>, count)"
  using fold_user_listeners [OF assms(2), of "record_action (Emit ev) m" count] assms(1)
  by (simp add: trigger_def record_action_def)

lemma forward_pair: "forward ev (m, count) = (m\<lparr>trace := trace m @ forwarded ev m\<rparr>, count)"
  by (simp add: forward_def content_trigger_def forwarded_def record_action_def)

lemma forward_snd [simp]: "snd (forward ev s) = snd s"
  by (cases s) (simp add: forward_pair)

lemma forwarded_upd [simp]:
  "forwarded ev (m\<lparr>preventClose_flag := v, trace := t\<rparr>) = forwarded ev m"
  by (simp add: forwarded_def)

lemma open_listeners_for:
  assumes "Modal_open bd cb (m, count) = Inr (m1, c1)"
  shows "listeners_for ''cancel'' m1 = listeners_for ''cancel'' m @ [SelfClose]"
    and "listeners_for ''ok'' m1 =
           listeners_for ''ok'' m @ (case cb of None \<Rightarrow> [] | Some l \<Rightarrow> [l])"
  using open_Inr(6) [OF assms] by (simp_all add: listeners_for_def split: option.splits)

subsection \<open>The handler for "hidden"\<close>

lemma fold_listeners_in_document:
  "in_document (fst (fold run_listener ls s)) = in_document (fst s)"
proof (induction ls arbitrary: s)
  case Nil
  then show ?case by simp
next
  case (Cons l ls)
  obtain m count where s: "s = (m, count)" by (cases s)
  show ?case
    by (cases l) (simp_all add: Cons s close_effect Modal_preventClose_def)
qed

lemma on_hidden_removes: "\<not> in_document (fst (on_hidden s))"
  by (cases s) (simp add: on_hidden_def trigger_def fold_listeners_in_document
      content_trigger_def remove_def)

lemma dom_hidden_removes:
  assumes "hidden_handlers m \<noteq> 0"
  shows "\<not> in_document (fst (dom_hidden (m, count)))"
proof -
  from assms obtain n where n: "hidden_handlers m = Suc n" by (cases "hidden_handlers m") auto
  show ?thesis by (simp add: dom_hidden_def n on_hidden_removes)
qed


subsection \<open>The click handlers\<close>

lemma click_ok_user:
  assumes "SelfClose \<notin> set (listeners_for ''ok'' m)"
  shows "click_ok (m, count) =
     (if okCloses (options m) then Modal_close else id)
       (m\<lparr>preventClose_flag := preventClose_flag m \<or> Veto \<in> set (listeners_for ''ok'' m),
          trace := trace m @ Emit ''ok'' # ran_trace (listeners_for ''ok'' m) @ forwarded ''ok'' m\<rparr>,
        count)"
  by (simp add: click_ok_def trigger_user [OF assms] forward_pair Let_def)

lemma click_cancel_user:
  assumes "SelfClose \<notin> set (listeners_for ''cancel'' m)"
  shows "click_cancel (m, count) =
       (m\<lparr>preventClose_flag := preventClose_flag m \<or> Veto \<in> set (listeners_for ''cancel'' m),
          trace := trace m @ Emit ''cancel'' # ran_trace (listeners_for ''cancel'' m)
                     @ forwarded ''cancel'' m\<rparr>,
        count)"
  by (simp add: click_cancel_def trigger_user [OF assms] forward_pair)

lemma click_cancel_wired:
  assumes "listeners_for ''cancel'' m = ls @ [SelfClose]" and "SelfClose \<notin> set ls"
  shows "click_cancel (m, count) =
       forward ''cancel''
         (Modal_close
            (m\<lparr>preventClose_flag := preventClose_flag m \<or> Veto \<in> set ls,
               trace := trace m @ Emit ''cancel'' # ran_trace ls\<rparr>, count))"
  by (simp add: click_cancel_def trigger_wired [OF assms])

lemma click_close_is_click_cancel: "click_close s = click_cancel s"
  by (simp add: click_close_def click_cancel_def)

subsection \<open>The option \<open>escape\<close>\<close>

lemma default_template_ignores_escape:
  "template_opt opts = DefaultTemplate \<Longrightarrow>
   apply_template (opts\<lparr>escape := e\<rparr>) = apply_template opts"
  by (simp add: apply_template_def template_def split: option.splits)

lemma render_set_escape:
  assumes "apply_template ((options m)\<lparr>escape := e\<rparr>) = apply_template (options m)"
  shows "Modal_render (set_escape e m) = map_sum id (set_escape e) (Modal_render m)"
  using assms
  by (simp add: Modal_render_def set_escape_def Let_def record_action_def
      split: sum.splits option.splits content.splits animate.splits)

lemma close_set_escape:
  "Modal_close (set_escape e m, count) = apfst (set_escape e) (Modal_close (m, count))"
  by (simp add: Modal_close_pair set_escape_def modal_hide_def record_action_def
      split: animate.splits)

lemma open_rendered_set_escape:
  "open_rendered bd cb count (set_escape e m0) = set_escape e (open_rendered bd cb count m0)"
  by (cases bd; cases cb; cases "allowCancel (options m0)")
     (simp_all add: open_rendered_def Let_def set_escape_def modal_show_def on_def
        record_action_def widget_backdrop_def)

lemma open_set_escape:
  assumes "apply_template ((options m)\<lparr>escape := e\<rparr>) = apply_template (options m)"
  shows "Modal_open bd cb (set_escape e m, count) =
           map_sum id (apfst (set_escape e)) (Modal_open bd cb (m, count))"
proof (cases "isRendered m")
  case True
  then show ?thesis by (simp add: Modal_open_def set_escape_def [of e m] open_rendered_set_escape)
       (simp add: set_escape_def open_rendered_set_escape [unfolded set_escape_def])
next
  case False
  then have r: "\<not> isRendered (set_escape e m)" by (simp add: set_escape_def)
  show ?thesis
    using False r render_set_escape [OF assms]
    by (cases "Modal_render m") (simp_all add: Modal_open_def open_rendered_set_escape)
qed

subsection \<open>Decimal strings\<close>

lemma parse_dec_foldl:
  "foldl (\<lambda>a ch. 10 * a + digit_val ch) a ys =
     a * 10 ^ length ys + foldl (\<lambda>a ch. 10 * a + digit_val ch) 0 ys"
proof (induction ys arbitrary: a)
  case Nil
  then show ?case by simp
next
  case (Cons y ys)
  show ?case
    using Cons [of "10 * a + digit_val y"] Cons [of "digit_val y"]
    by (simp add: algebra_simps)
qed

lemma parse_dec_append:
  "parse_dec (xs @ ys) = parse_dec xs * 10 ^ length ys + parse_dec ys"
  using parse_dec_foldl [of "parse_dec xs" ys] by (simp add: parse_dec_def)

lemma digit_val_digit_char: "d < 10 \<Longrightarrow> digit_val (digit_char d) = d"
proof -
  assume "d < 10"
  then have "d \<in> {0, 1, 2, 3, 4, 5, 6, 7, 8, 9}" by auto
  then show ?thesis by (auto simp: digit_val_def digit_char_def)
qed

lemma parse_show_nat: "parse_dec (show_nat n) = n"
proof (induction n rule: show_nat.induct)
  case (1 n)
  show ?case
  proof (cases "n < 10")
    case True
    then show ?thesis by (simp add: show_nat.simps [of n] parse_dec_def digit_val_digit_char)
  next
    case False
    then have "parse_dec (show_nat (n div 10)) = n div 10" using 1 by simp
    moreover have "parse_dec [digit_char (n mod 10)] = n mod 10"
      by (simp add: parse_dec_def digit_val_digit_char)
    ultimately show ?thesis using False
      by (simp add: show_nat.simps [of n] parse_dec_append)
  qed
qed

lemma length_show_nat_mono: "i \<le> j \<Longrightarrow> length (show_nat i) \<le> length (show_nat j)"
proof (induction j arbitrary: i rule: show_nat.induct)
  case (1 j)
  show ?case
  proof (cases "j < 10")
    case True
    then show ?thesis using 1(2) by (simp add: show_nat.simps [of i] show_nat.simps [of j])
  next
    case False
    show ?thesis
    proof (cases "i < 10")
      case True
      then show ?thesis using False by (simp add: show_nat.simps [of i] show_nat.simps [of j])
    next
      case i: False
      have "i div 10 \<le> j div 10" using 1(2) by (rule div_le_mono)
      then have "length (show_nat (i div 10)) \<le> length (show_nat (j div 10))"
        using 1(1) False by simp
      then show ?thesis using False i by (simp add: show_nat.simps [of i] show_nat.simps [of j])
    qed
  qed
qed

text \<open>A string followed by the digits of a number stands for more, the larger the number.\<close>

lemma zindex_concat_increasing:
  assumes "i < j"
  shows "parse_dec (b @ show_nat i) < parse_dec (b @ show_nat j)"
proof -
  have "length (show_nat i) \<le> length (show_nat j)" using assms by (simp add: length_show_nat_mono)
  then have "(10::nat) ^ length (show_nat i) \<le> 10 ^ length (show_nat j)"
    by (simp add: power_increasing)
  then have "parse_dec b * 10 ^ length (show_nat i) \<le> parse_dec b * 10 ^ length (show_nat j)"
    by (rule mult_le_mono2)
  then have "parse_dec b * 10 ^ length (show_nat i) + i < parse_dec b * 10 ^ length (show_nat j) + j"
    using assms by linarith
  then show ?thesis by (simp only: parse_dec_append parse_show_nat)
qed

lemma open_all_result:
  assumes "open_all (Some b) ms count = Inr (ms1, c1)"
  shows "c1 = count + int (length ms)
       \<and> map el_zindex ms1 = map (\<lambda>k. JStr (b @ show_int (count + int k))) [0..<length ms]
       \<and> map backdrop_zindex ms1 = map (\<lambda>k. JStr (b @ show_int (count + int k))) [0..<length ms]"
  using assms
proof (induction ms arbitrary: count ms1 c1)
  case Nil
  then show ?case by simp
next
  case (Cons m ms)
  from Cons.prems obtain m' c' ms' where
    o: "Modal_open (Some b) None (m, count) = Inr (m', c')" and
    r: "open_all (Some b) ms c' = Inr (ms', c1)" and
    e: "ms1 = m' # ms'"
    by (auto split: sum.splits prod.splits)
  note f = open_Inr [OF o]
  have c': "c' = count + 1" by (rule f(1))
  from Cons.IH [OF r] have
    ih1: "c1 = c' + int (length ms)" and
    ih2: "map el_zindex ms' = map (\<lambda>k. JStr (b @ show_int (c' + int k))) [0..<length ms]" and
    ih3: "map backdrop_zindex ms' = map (\<lambda>k. JStr (b @ show_int (c' + int k))) [0..<length ms]"
    by simp_all
  have z: "el_zindex m' = JStr (b @ show_int count)" "backdrop_zindex m' = JStr (b @ show_int count)"
    using f(12) f(13) by simp_all
  have u: "map (\<lambda>k. JStr (b @ show_int (count + int k))) [0..<length (m # ms)]
        = JStr (b @ show_int count) # map (\<lambda>k. JStr (b @ show_int (c' + int k))) [0..<length ms]"
    by (simp add: upt_conv_Cons map_Suc_upt [symmetric] c' del: upt_Suc)
       (simp add: add.commute add.left_commute)
  show ?case
    by (simp only: u e list.map z ih2 ih3) (simp add: ih1 c')
qed


section \<open>Opening and then closing\<close>

text \<open>
  When \<open>open()\<close> returns it has incremented the open-count by one, and the \<open>close()\<close> that
  follows restores it.  \<open>close()\<close> does not remove the element itself: the handler it
  attaches does, if the "hidden" signal arrives once \<open>close()\<close> has returned.
\<close>

lemma late_hidden_signal_removes_element:
  assumes "apply_template (options m) = Inr html"
    and "content (options m) = Some c" and "c \<noteq> Nullish"
    and "\<not> preventClose_flag m"
  shows "\<exists>m1. Modal_open bd cb (m, count) = Inr (m1, count + 1)
           \<and> in_document m1
           \<and> snd (Modal_close (m1, count + 1)) = count
           \<and> in_document (fst (Modal_close (m1, count + 1)))
           \<and> \<not> in_document (fst (dom_hidden (Modal_close (m1, count + 1))))
           \<and> \<not> in_document (fst (dom_hidden (apfst hook_callback (Modal_close (m1, count + 1)))))"
proof -
  from assms(1-3) obtain m0 where r: "(if isRendered m then Inr m else Modal_render m) = Inr m0"
    using render_Inr_iff [of m] by (cases "isRendered m") auto
  let ?m1 = "open_rendered bd cb count m0"
  have o: "Modal_open bd cb (m, count) = Inr (?m1, count + 1)" by (rule open_returns [OF r])
  note f = open_Inr [OF o]
  have nv: "\<not> preventClose_flag ?m1" using f(3) assms(4) by simp
  obtain m2 c2 where cl: "Modal_close (?m1, count + 1) = (m2, c2)"
    by (cases "Modal_close (?m1, count + 1)")
  have h2: "hidden_handlers m2 \<noteq> 0" and d2: "in_document m2" and c2: "c2 = count"
    using close_effect [of ?m1 "count + 1"] nv f(4) by (simp_all add: cl)
  have "\<not> in_document (fst (dom_hidden (m2, c2)))" by (rule dom_hidden_removes [OF h2])
  moreover have "\<not> in_document (fst (dom_hidden (hook_callback m2, c2)))"
    by (rule dom_hidden_removes) (simp add: h2)
  ultimately show ?thesis using o f(4) d2 c2 by (simp add: cl)
qed

text \<open>
  C1.  A Modal with a title, a text as content and the two button texts, \<open>animate\<close> left
  at its default, is opened and closed at once, over a widget that completes the hide
  inside \<open>$el.modal('hide')\<close>.  \<open>close()\<close> asks for the hide before it attaches its
  handler for "hidden", so the signal finds no handler: the open-count is back at its
  value before \<open>open()\<close>, but the element is never removed and stays in the document,
  with the handler still waiting.  (The first component says that \<open>close()\<close> is its two
  parts in this order; the last, that the element is removed when the signal arrives
  after \<open>close()\<close> has returned.)
\<close>

theorem hidden_inside_hide_leaves_element:
  "map_sum id
     (\<lambda>s. (Modal_close s = close_attach_hidden (close_request_hide (fst s), snd s),
           in_document
             (fst (close_attach_hidden (dom_hidden (close_request_hide (fst s), snd s)))),
           RemoveEl \<in> set (trace
             (fst (close_attach_hidden (dom_hidden (close_request_hide (fst s), snd s))))),
           hidden_handlers
             (fst (close_attach_hidden (dom_hidden (close_request_hide (fst s), snd s)))),
           snd (close_attach_hidden (dom_hidden (close_request_hide (fst s), snd s))),
           in_document (fst (dom_hidden (Modal_close s)))))
     (Modal_open (Some ''1040'') None
        (Modal_initialize [Title (JStr ''Confirm''), Content (StringContent ''Are you sure?''),
           OkText (JStr ''Yes''), CancelText (JStr ''No'')], 0))
   = Inr (True, True, False, 1, 0, False)"
proof -
  let ?m = "Modal_initialize [Title (JStr ''Confirm''), Content (StringContent ''Are you sure?''),
           OkText (JStr ''Yes''), CancelText (JStr ''No'')]"
  have a: "map_sum id
     (\<lambda>s. (in_document
             (fst (close_attach_hidden (dom_hidden (close_request_hide (fst s), snd s)))),
           RemoveEl \<in> set (trace
             (fst (close_attach_hidden (dom_hidden (close_request_hide (fst s), snd s))))),
           hidden_handlers
             (fst (close_attach_hidden (dom_hidden (close_request_hide (fst s), snd s)))),
           snd (close_attach_hidden (dom_hidden (close_request_hide (fst s), snd s))),
           in_document (fst (dom_hidden (close_attach_hidden (close_request_hide (fst s), snd s))))))
     (Modal_open (Some ''1040'') None (?m, 0))
   = Inr (True, False, 1, 0, False)"
    by code_simp
  then obtain m1 c1 where o: "Modal_open (Some ''1040'') None (?m, 0) = Inr (m1, c1)"
    by (cases "Modal_open (Some ''1040'') None (?m, 0)") auto
  have "\<not> preventClose_flag m1"
    using open_Inr(3) [OF o] by (simp add: initialize_fresh)
  then have b: "Modal_close (m1, c1) = close_attach_hidden (close_request_hide m1, c1)"
    by (simp add: Modal_close_parts)
  from a show ?thesis by (simp add: o b)
qed


section \<open>The veto of \<open>preventClose\<close>\<close>

text \<open>
  C2.  After \<open>preventClose()\<close> the next \<open>close()\<close> only clears the flag: nothing else of
  the Modal changes, so the widget's hide is not asked for (the trace and the callbacks
  handed to the animate hook are as before), the element stays where it was and the
  open-count is unchanged.  The \<open>close()\<close> after that one proceeds: it delegates the hide
  (to the widget, or to the animate hook), attaches the handler for "hidden" and
  decrements the open-count.
\<close>

theorem preventClose_vetoes_one_close:
  "Modal_close (Modal_preventClose m, count) = (m\<lparr>preventClose_flag := False\<rparr>, count)
   \<and> trace (fst (Modal_close (Modal_preventClose m, count))) = trace m
   \<and> pending_hide (fst (Modal_close (Modal_preventClose m, count))) = pending_hide m
   \<and> in_document (fst (Modal_close (Modal_preventClose m, count))) = in_document m
   \<and> snd (Modal_close (Modal_preventClose m, count)) = count
   \<and> snd (Modal_close (Modal_close (Modal_preventClose m, count))) = count - 1
   \<and> hidden_handlers (fst (Modal_close (Modal_close (Modal_preventClose m, count))))
       = Suc (hidden_handlers m)
   \<and> trace (fst (Modal_close (Modal_close (Modal_preventClose m, count))))
       = trace m @ [case animate (options m) of
                      AnimateHook \<Rightarrow> HookCall ''close'' | AnimateBool b \<Rightarrow> WidgetHide]"
  by (simp add: Modal_close_pair Modal_preventClose_def modal_hide_def split: animate.splits)

theorem preventClose_vetoes_one_close_witness:
  "trace (fst (Modal_close (Modal_preventClose (Modal_initialize []), 1))) = []
   \<and> snd (Modal_close (Modal_preventClose (Modal_initialize []), 1)) = 1
   \<and> snd (Modal_close (Modal_close (Modal_preventClose (Modal_initialize []), 1))) = 0
   \<and> trace (fst (Modal_close (Modal_close (Modal_preventClose (Modal_initialize []), 1))))
       = [WidgetHide]"
  using preventClose_vetoes_one_close [of "Modal_initialize []" 1]
  by (simp add: Modal_initialize_def underscore_extend_def defaults_def Modal_close_pair
      Modal_preventClose_def modal_hide_def)


section \<open>Several modals\<close>

text \<open>
  C3 (as amended).  Opening N modals one after the other, each \<open>open()\<close> returning,
  increments the open-count by N (to N from 0).  The modal opened at open-count \<open>k\<close> gets
  one and the same z-index on its element and on its backdrop, made from the backdrop's
  z-index and \<open>k\<close>; with the same backdrop z-index for all and a count that is not
  negative, the number this z-index stands for grows strictly from each modal to the
  next, so each modal stacks above the one before.  (The step from one modal to the next
  is not proportional to \<open>k\<close>.)
\<close>

theorem sequential_opens_stack:
  assumes "open_all (Some b) ms count = Inr (ms1, c1)" and "0 \<le> count"
  shows "c1 = count + int (length ms)
       \<and> length ms1 = length ms
       \<and> map backdrop_zindex ms1 = map el_zindex ms1
       \<and> map el_zindex ms1 = map (\<lambda>k. js_add (JStr b) (JNum (count + int k))) [0..<length ms]
       \<and> sorted_wrt (<) (map (\<lambda>m. zindex_value (el_zindex m)) ms1)"
proof -
  note r = open_all_result [OF assms(1)]
  have s: "show_int (count + int k) = show_nat (nat count + k)" for k
    using assms(2) by (simp add: show_int_def nat_add_distrib)
  have "length (map el_zindex ms1) = length ms" using r by simp
  then have l: "length ms1 = length ms" by simp
  have "map (\<lambda>m. zindex_value (el_zindex m)) ms1 = map zindex_value (map el_zindex ms1)"
    by simp
  also have "\<dots> = map (\<lambda>k. parse_dec (b @ show_nat (nat count + k))) [0..<length ms]"
    using r by (simp add: s)
  finally have v: "map (\<lambda>m. zindex_value (el_zindex m)) ms1 =
                     map (\<lambda>k. parse_dec (b @ show_nat (nat count + k))) [0..<length ms]" .
  have "sorted_wrt (\<lambda>i j. parse_dec (b @ show_nat (nat count + i))
                          < parse_dec (b @ show_nat (nat count + j))) [0..<length ms]"
    by (rule sorted_wrt_mono_rel [OF _ sorted_wrt_upt]) (simp add: zindex_concat_increasing)
  then have "sorted_wrt (<) (map (\<lambda>m. zindex_value (el_zindex m)) ms1)"
    by (simp add: v sorted_wrt_map)
  then show ?thesis using r l by simp
qed

theorem sequential_opens_stack_witness:
  "(0::int) \<le> 0
   \<and> map_sum id (\<lambda>r. (snd r, map el_zindex (fst r), map backdrop_zindex (fst r)))
       (open_all (Some ''1040'')
          [Modal_initialize [Content (StringContent ''a'')],
           Modal_initialize [Content (StringContent ''b'')],
           Modal_initialize [Content (StringContent ''c'')]] 0)
     = Inr (3, [JStr ''10400'', JStr ''10401'', JStr ''10402''],
               [JStr ''10400'', JStr ''10401'', JStr ''10402''])"
proof -
  let ?ms = "[Modal_initialize [Content (StringContent ''a'')],
           Modal_initialize [Content (StringContent ''b'')],
           Modal_initialize [Content (StringContent ''c'')]]"
  have e: "map_sum id (\<lambda>r. (snd r, map el_zindex (fst r), map backdrop_zindex (fst r)))
       (open_all (Some ''1040'') ?ms 0)
     = Inr (3, [JStr ''10400'', JStr ''10401'', JStr ''10402''],
               [JStr ''10400'', JStr ''10401'', JStr ''10402''])"
    by (simp add: Modal_open_def Modal_render_def initialize_fresh defaults_def
        apply_template_def template_def Let_def open_rendered_def modal_show_def on_def
        css_set_def show_int_def show_nat.simps digit_char_def)
  then obtain ms1 c1 where o: "open_all (Some ''1040'') ?ms 0 = Inr (ms1, c1)"
    by (cases "open_all (Some ''1040'') ?ms 0") auto
  have z: "(0::int) \<le> 0" by simp
  from sequential_opens_stack [OF o z] have "c1 = 3" by simp
  with e z show ?thesis by simp
qed

text \<open>
  C3 as stated fails: for three modals over a backdrop z-index of 1040 the z-indexes are
  10400, 10401 and 10402, each 1 above the one before, so the step of modal 2 is not
  twice the step of modal 1.
\<close>

theorem stacking_delta_not_proportional:
  "map_sum id (\<lambda>r. (map (\<lambda>m. zindex_value (el_zindex m)) (fst r),
                    delta_proportional (map (\<lambda>m. zindex_value (el_zindex m)) (fst r))))
     (open_all (Some ''1040'')
        [Modal_initialize [Content (StringContent ''a'')],
         Modal_initialize [Content (StringContent ''b'')],
         Modal_initialize [Content (StringContent ''c'')]] 0)
   = Inr ([10400, 10401, 10402], False)"
  by (simp add: Modal_open_def Modal_render_def initialize_fresh defaults_def
      apply_template_def template_def Let_def open_rendered_def modal_show_def on_def
      css_set_def show_int_def show_nat.simps digit_char_def parse_dec_def digit_val_def
      delta_proportional_def upt_conv_Cons)


section \<open>The order of the hide, the removal and "hidden"\<close>





section \<open>The Escape key\<close>

text \<open>
  C5.  A Modal with \<open>allowCancel\<close> (the default) and a content view that can be
  triggered is opened, and the Escape key (code 27) is released.  The Modal emits
  "cancel" (and closes), but what it forwards to the content view is "shown", not
  "cancel": the content view never hears of the cancellation.
\<close>

theorem escape_key_forwards_shown:
  "map_sum id (\<lambda>s. (trace (fst (keyup 27 s)),
                    Forward ''cancel'' \<in> set (trace (fst (keyup 27 s)))))
     (Modal_open (Some ''1040'') None (Modal_initialize [Content (ObjectContent True True)], 0))
   = Inr ([ContentRender, WidgetShow (JBool True) (JBool True), Emit ''cancel'', WidgetHide,
           Forward ''shown''], False)"
  by code_simp


section \<open>\<open>allowCancel = false\<close>\<close>

lemma no_handlers_no_effect:
  assumes "keyup_handlers m = 0" and "backdrop_click_handlers m = 0"
  shows "keyup which (m, count) = (m, count)" and "backdrop_click (m, count) = (m, count)"
proof -
  have "m\<lparr>keyup_handlers := 0\<rparr> = m" using assms(1) by (cases m) simp
  then show "keyup which (m, count) = (m, count)" using assms(1) by (simp add: keyup_def)
  have "m\<lparr>backdrop_click_handlers := 0\<rparr> = m" using assms(2) by (cases m) simp
  then show "backdrop_click (m, count) = (m, count)" using assms(2) by (simp add: backdrop_click_def)
qed

text \<open>
  C6.  A Modal constructed with \<open>allowCancel = false\<close> and opened has neither the handler
  for the Escape key nor the one for a click on the backdrop attached: a key release
  (Escape or any other) and a click on the backdrop change nothing, so no "cancel" is
  emitted and the element remains in the document; and the keyboard option given to the
  Dialog Widget is \<open>false\<close>.
\<close>

theorem allowCancel_false_disables_dismissal:
  assumes "\<not> allowCancel (options (Modal_initialize supplied))"
    and "Modal_open bd cb (Modal_initialize supplied, count) = Inr (m1, c1)"
  shows "keyup_handlers m1 = 0 \<and> backdrop_click_handlers m1 = 0
       \<and> keyup which (m1, c1) = (m1, c1)
       \<and> backdrop_click (m1, c1) = (m1, c1)
       \<and> in_document m1
       \<and> map_option fst (widget_config m1) = Some (JBool False)"
proof -
  note f = open_Inr [OF assms(2)]
  have k: "keyup_handlers m1 = 0" and b: "backdrop_click_handlers m1 = 0"
    using f(10) f(11) assms(1) by (simp_all add: initialize_fresh)
  show ?thesis
    using k b no_handlers_no_effect [OF k b] f(4) f(5) assms(1) by simp
qed

theorem allowCancel_false_disables_dismissal_witness:
  "\<not> allowCancel (options (Modal_initialize [AllowCancel False, Content (StringContent ''x'')]))
   \<and> map_sum id (\<lambda>s. (keyup 27 s = s, backdrop_click s = s, in_document (fst s),
                      map_option fst (widget_config (fst s))))
       (Modal_open (Some ''1040'') None
          (Modal_initialize [AllowCancel False, Content (StringContent ''x'')], 0))
     = Inr (True, True, True, Some (JBool False))"
proof -
  let ?m = "Modal_initialize [AllowCancel False, Content (StringContent ''x'')]"
  have a: "\<not> allowCancel (options ?m)" by (simp add: initialize_fresh defaults_def)
  have "\<exists>m1. Modal_open (Some ''1040'') None (?m, 0) = Inr (m1, 1)"
    by (simp add: Modal_open_def Modal_render_def initialize_fresh defaults_def
        apply_template_def template_def Let_def)
  then obtain m1 where o: "Modal_open (Some ''1040'') None (?m, 0) = Inr (m1, 1)" ..
  show ?thesis
    using a allowCancel_false_disables_dismissal [OF a o, of 27] by (simp add: o)
qed


section \<open>The buttons\<close>

text \<open>
  C7.  Let \<open>open()\<close> be called on a Modal that has no close wiring yet, with a callback
  that is a listener of the caller.  Afterwards a click on OK emits "ok", runs the
  listeners for "ok", forwards "ok" to a content that can be triggered, and then calls
  \<open>close()\<close> exactly if \<open>okCloses\<close> is set: the open-count goes down by one unless
  \<open>okCloses\<close> is false or a listener has vetoed.  A click on the close icon or on Cancel
  emits "cancel" (and forwards it) and calls \<open>close()\<close> in no other way than through the
  listeners for "cancel": before \<open>open()\<close> nothing is closed by it, after \<open>open()\<close> the
  listener that \<open>open()\<close> registered closes the Modal.
\<close>

theorem ok_closes_cancel_is_wired:
  assumes "SelfClose \<notin> snd ` set (listeners m)"
    and "cb \<noteq> Some SelfClose"
    and "Modal_open bd cb (m, count) = Inr (m1, c1)"
  shows "click_ok (m1, c1) =
           (if okCloses (options m1) then Modal_close else id)
             (m1\<lparr>preventClose_flag :=
                   preventClose_flag m1 \<or> Veto \<in> set (listeners_for ''ok'' m1),
                 trace := trace m1 @ Emit ''ok'' # ran_trace (listeners_for ''ok'' m1)
                            @ forwarded ''ok'' m1\<rparr>, c1)
       \<and> snd (click_ok (m1, c1)) =
           (if okCloses (options m1)
               \<and> \<not> (preventClose_flag m1 \<or> Veto \<in> set (listeners_for ''ok'' m1))
            then c1 - 1 else c1)
       \<and> click_cancel (m, count) =
           (m\<lparr>preventClose_flag :=
                preventClose_flag m \<or> Veto \<in> set (listeners_for ''cancel'' m),
              trace := trace m @ Emit ''cancel'' # ran_trace (listeners_for ''cancel'' m)
                         @ forwarded ''cancel'' m\<rparr>, count)
       \<and> click_close (m, count) = click_cancel (m, count)
       \<and> click_cancel (m1, c1) =
           forward ''cancel''
             (Modal_close
                (m1\<lparr>preventClose_flag :=
                      preventClose_flag m1 \<or> Veto \<in> set (listeners_for ''cancel'' m),
                    trace := trace m1 @ Emit ''cancel'' # ran_trace (listeners_for ''cancel'' m)\<rparr>,
                 c1))
       \<and> snd (click_cancel (m1, c1)) =
           (if preventClose_flag m1 \<or> Veto \<in> set (listeners_for ''cancel'' m) then c1 else c1 - 1)
       \<and> click_close (m1, c1) = click_cancel (m1, c1)"
proof -
  have c0: "SelfClose \<notin> set (listeners_for ''cancel'' m)"
    using assms(1) listeners_for_subset [of "''cancel''" m] by blast
  have k0: "SelfClose \<notin> set (listeners_for ''ok'' m)"
    using assms(1) listeners_for_subset [of "''ok''" m] by blast
  note w = open_listeners_for [OF assms(3)]
  have k1: "SelfClose \<notin> set (listeners_for ''ok'' m1)"
    using k0 assms(2) by (auto simp: w(2) split: option.splits)
  note ok = click_ok_user [OF k1, of c1]
  note ca = click_cancel_wired [OF w(1) c0, of c1]
  show ?thesis
    apply (intro conjI)
          apply (rule ok)
         apply (simp add: ok close_effect)
        apply (rule click_cancel_user [OF c0])
       apply (rule click_close_is_click_cancel)
      apply (rule ca)
     apply (simp add: ca close_effect)
    apply (rule click_close_is_click_cancel)
    done
qed

theorem ok_closes_cancel_is_wired_witness:
  "SelfClose \<notin> snd ` set (listeners (Modal_initialize [Content (ObjectContent True True)]))
   \<and> Some (Callback ''cb'') \<noteq> Some SelfClose
   \<and> map_sum id
       (\<lambda>s. (trace (fst (click_ok s)), snd (click_ok s),
             trace (fst (click_cancel s)), snd (click_cancel s)))
       (Modal_open (Some ''1040'') (Some (Callback ''cb''))
          (Modal_initialize [Content (ObjectContent True True)], 0))
     = Inr ([ContentRender, WidgetShow (JBool True) (JBool True), Emit ''ok'', Ran ''cb'',
             Forward ''ok'', WidgetHide], 0,
            [ContentRender, WidgetShow (JBool True) (JBool True), Emit ''cancel'', WidgetHide,
             Forward ''cancel''], 0)
   \<and> trace (fst (click_cancel (Modal_initialize [Content (ObjectContent True True)], 0)))
       = [Emit ''cancel'', Forward ''cancel'']
   \<and> snd (click_cancel (Modal_initialize [Content (ObjectContent True True)], 0)) = 0"
proof -
  let ?m = "Modal_initialize [Content (ObjectContent True True)]"
  have a: "SelfClose \<notin> snd ` set (listeners ?m)" by (simp add: initialize_fresh)
  have b: "Some (Callback ''cb'') \<noteq> Some SelfClose" by simp
  have e: "map_sum id
       (\<lambda>s. (trace (fst (click_ok s)), snd (click_ok s),
             trace (fst (click_cancel s)), snd (click_cancel s)))
       (Modal_open (Some ''1040'') (Some (Callback ''cb'')) (?m, 0))
     = Inr ([ContentRender, WidgetShow (JBool True) (JBool True), Emit ''ok'', Ran ''cb'',
             Forward ''ok'', WidgetHide], 0,
            [ContentRender, WidgetShow (JBool True) (JBool True), Emit ''cancel'', WidgetHide,
             Forward ''cancel''], 0)"
    by code_simp
  then obtain m1 c1 where o: "Modal_open (Some ''1040'') (Some (Callback ''cb'')) (?m, 0) = Inr (m1, c1)"
    by (cases "Modal_open (Some ''1040'') (Some (Callback ''cb'')) (?m, 0)") auto
  have f: "listeners_for ''cancel'' ?m = []" "forwarded ''cancel'' ?m = [Forward ''cancel'']"
    "trace ?m = []"
    by (simp_all add: listeners_for_def forwarded_def Modal_initialize_def underscore_extend_def
        defaults_def)
  from ok_closes_cancel_is_wired [OF a b o]
  have "click_cancel (?m, 0) =
           (?m\<lparr>preventClose_flag :=
                preventClose_flag ?m \<or> Veto \<in> set (listeners_for ''cancel'' ?m),
              trace := trace ?m @ Emit ''cancel'' # ran_trace (listeners_for ''cancel'' ?m)
                         @ forwarded ''cancel'' ?m\<rparr>, 0)"
    by simp
  then have "trace (fst (click_cancel (?m, 0))) = [Emit ''cancel'', Forward ''cancel'']"
    and "snd (click_cancel (?m, 0)) = 0"
    by (simp_all add: f)
  with a b e show ?thesis by simp
qed


section \<open>The markup of the default template\<close>

lemma template_Some:
  "content opts = Some c \<Longrightarrow> template opts = Inr (
          (if truthy (title opts) then
             [Elem ''div'' [''modal-header'']
                ((if allowCancel opts then [Elem ''a'' [''close''] [Text [CHR 0xC3, CHR 0x97]]] else [])
                 @ [Elem ''h3'' [] [Text (interp (title opts))]])]
           else [])
          @ [Elem ''div'' [''modal-body''] [Text (interp_content c)]]
          @ (if okText opts \<noteq> JBool False \<or> cancelText opts \<noteq> JBool False then
               [Elem ''div'' [''modal-footer'']
                  ((if allowCancel opts then
                      (if truthy (cancelText opts) then
                         [Elem ''a'' [''btn'', ''cancel''] [Text (interp (cancelText opts))]]
                       else [])
                    else [])
                   @ [Elem ''a'' [''btn'', ''ok'', ''btn-primary''] [Text (interp (okText opts))]])]
             else []))"
  by (simp add: template_def)

text \<open>
  C8.  In the markup of the default template, for options with a content: the header
  is there exactly if the title is set (truthy), and holds the title and, exactly if
  \<open>allowCancel\<close>, the close icon before it; the body is always there; the Cancel button
  is there exactly if \<open>cancelText\<close> is truthy and \<open>allowCancel\<close> is set, so a falsey
  \<open>cancelText\<close> removes it; the footer (and with it the OK button) is missing exactly if
  \<open>okText\<close> and \<open>cancelText\<close> are both \<open>false\<close> itself.
\<close>

theorem default_template_regions:
  assumes "content opts = Some c"
  shows "\<exists>html. template opts = Inr html
     \<and> find_sel [''modal-header''] html =
         (if truthy (title opts) then
            [Elem ''div'' [''modal-header'']
               ((if allowCancel opts then [Elem ''a'' [''close''] [Text [CHR 0xC3, CHR 0x97]]] else [])
                @ [Elem ''h3'' [] [Text (interp (title opts))]])]
          else [])
     \<and> (find_sel [''close''] html \<noteq> [] \<longleftrightarrow> truthy (title opts) \<and> allowCancel opts)
     \<and> find_sel [''modal-body''] html = [Elem ''div'' [''modal-body''] [Text (interp_content c)]]
     \<and> (find_sel [''cancel''] html \<noteq> [] \<longleftrightarrow> truthy (cancelText opts) \<and> allowCancel opts)
     \<and> (find_sel [''modal-footer''] html = [] \<longleftrightarrow>
          okText opts = JBool False \<and> cancelText opts = JBool False)
     \<and> (find_sel [''ok''] html = [] \<longleftrightarrow>
          okText opts = JBool False \<and> cancelText opts = JBool False)"
  apply (simp only: template_Some [OF assms] sum.inject simp_thms ex_simps)
  apply (cases "truthy (title opts)"; cases "allowCancel opts"; cases "truthy (cancelText opts)";
         cases "okText opts = JBool False"; cases "cancelText opts = JBool False")
                      apply (auto simp: find_sel_def)
  done

theorem default_template_regions_witness:
  "content (defaults\<lparr>content := Some (StringContent ''x''), cancelText := JBool False,
               okText := JBool False\<rparr>) = Some (StringContent ''x'')
   \<and> template (defaults\<lparr>content := Some (StringContent ''x''), cancelText := JBool False,
                 okText := JBool False\<rparr>)
       = Inr [Elem ''div'' [''modal-body''] [Text ''x'']]
   \<and> find_sel [''modal-footer''] [Elem ''div'' [''modal-body''] [Text ''x'']] = []
   \<and> find_sel [''modal-header''] [Elem ''div'' [''modal-body''] [Text ''x'']] = []"
proof -
  let ?o = "defaults\<lparr>content := Some (StringContent ''x''), cancelText := JBool False,
               okText := JBool False\<rparr>"
  have c: "content ?o = Some (StringContent ''x'')" by simp
  have t: "template ?o = Inr [Elem ''div'' [''modal-body''] [Text ''x'']]"
    by (simp add: template_def defaults_def)
  from default_template_regions [OF c] t
  have "find_sel [''modal-footer''] [Elem ''div'' [''modal-body''] [Text ''x'']] = []"
    and "find_sel [''modal-header''] [Elem ''div'' [''modal-body''] [Text ''x'']] = []"
    by (auto simp: defaults_def)
  with c t show ?thesis by simp
qed


section \<open>The option \<open>escape\<close> is not read\<close>

text \<open>
  C9.  \<open>escape\<close> is merged into the options with the default \<open>true\<close>, and then plays no
  part: whenever \<open>open()\<close> returns, the keyboard option it gave to the Dialog Widget is
  \<open>allowCancel\<close>, whatever \<open>escape\<close> is; and for a template that does not look at
  \<open>escape\<close> (the default template is one), \<open>render()\<close>, \<open>open()\<close> and \<open>close()\<close> do to a Modal
  with another value of \<open>escape\<close> exactly what they do to the Modal, the option itself
  apart.
\<close>

theorem escape_is_never_read:
  assumes "apply_template ((options m)\<lparr>escape := e\<rparr>) = apply_template (options m)"
  shows "escape (options (Modal_initialize [])) = True
       \<and> map_sum id (\<lambda>s. map_option fst (widget_config (fst s)))
           (Modal_open bd cb (set_escape e m, count))
         = map_sum id (\<lambda>s. Some (JBool (allowCancel (options m)))) (Modal_open bd cb (m, count))
       \<and> Modal_render (set_escape e m) = map_sum id (set_escape e) (Modal_render m)
       \<and> Modal_open bd cb (set_escape e m, count)
           = map_sum id (apfst (set_escape e)) (Modal_open bd cb (m, count))
       \<and> Modal_close (set_escape e m, count) = apfst (set_escape e) (Modal_close (m, count))"
proof -
  have k: "map_sum id (\<lambda>s. map_option fst (widget_config (fst s)))
             (map_sum id (apfst (set_escape e)) (Modal_open bd cb (m, count)))
           = map_sum id (\<lambda>s. Some (JBool (allowCancel (options m)))) (Modal_open bd cb (m, count))"
  proof (cases "Modal_open bd cb (m, count)")
    case (Inl err)
    then show ?thesis by simp
  next
    case (Inr s)
    obtain m1 c1 where s: "s = (m1, c1)" by (cases s)
    from open_Inr(5) [OF Inr [unfolded s]] show ?thesis
      by (simp add: Inr s set_escape_def)
  qed
  show ?thesis
    using k by (simp add: initialize_fresh defaults_def render_set_escape [OF assms]
        open_set_escape [OF assms] close_set_escape)
qed

theorem escape_is_never_read_witness:
  "apply_template ((options (Modal_initialize [Content (StringContent ''x'')]))\<lparr>escape := False\<rparr>)
     = apply_template (options (Modal_initialize [Content (StringContent ''x'')]))
   \<and> map_sum id (\<lambda>s. map_option fst (widget_config (fst s)))
       (Modal_open (Some ''1040'') None
          (set_escape False (Modal_initialize [Content (StringContent ''x'')]), 0))
     = Inr (Some (JBool True))"
proof -
  let ?m = "Modal_initialize [Content (StringContent ''x'')]"
  have a: "apply_template ((options ?m)\<lparr>escape := False\<rparr>) = apply_template (options ?m)"
    by (rule default_template_ignores_escape) (simp add: initialize_fresh defaults_def)
  have "\<exists>m1. Modal_open (Some ''1040'') None (?m, 0) = Inr (m1, 1)"
    by (simp add: Modal_open_def Modal_render_def initialize_fresh defaults_def
        apply_template_def template_def Let_def)
  then obtain m1 where o: "Modal_open (Some ''1040'') None (?m, 0) = Inr (m1, 1)" ..
  have c: "allowCancel (options ?m)" by (simp add: initialize_fresh defaults_def)
  from escape_is_never_read [OF a, of "Some ''1040''" None 0]
  have "map_sum id (\<lambda>s. map_option fst (widget_config (fst s)))
          (Modal_open (Some ''1040'') None (set_escape False ?m, 0))
        = map_sum id (\<lambda>s. Some (JBool (allowCancel (options ?m))))
            (Modal_open (Some ''1040'') None (?m, 0))"
    by (elim conjE)
  then have "map_sum id (\<lambda>s. map_option fst (widget_config (fst s)))
          (Modal_open (Some ''1040'') None (set_escape False ?m, 0)) = Inr (Some (JBool True))"
    by (simp only: o c map_sum.simps)
  with a show ?thesis by (rule conjI)
qed


section \<open>A Modal without content\<close>

lemma fold_no_content:
  "no_content_key supplied \<Longrightarrow> content (fold set_opt supplied opts) = content opts"
  by (induction supplied arbitrary: opts) (auto simp: no_content_key_def split: opt.splits)

lemma render_no_content:
  assumes "content (options m) = None"
  shows "Modal_render m =
           Inl (case apply_template (options m) of Inl e \<Rightarrow> e | Inr html \<Rightarrow> TypeError)"
  using assms by (simp add: Modal_render_def Let_def split: sum.splits)

text \<open>
  C10.  For every Modal constructed from options without the key \<open>content\<close>, \<open>render()\<close>
  fails, and so does the first \<open>open()\<close>, with the same error: the error of the template
  if the template throws (the default template does: it reads the name \<open>content\<close>, which
  is unbound), and otherwise the TypeError of reading \<open>$el\<close> of \<open>undefined\<close>.  No body is
  rendered for a missing content.
\<close>

theorem render_without_content_fails:
  assumes "no_content_key supplied"
  shows "Modal_render (Modal_initialize supplied)
           = Inl (case apply_template (options (Modal_initialize supplied)) of
                    Inl e \<Rightarrow> e | Inr html \<Rightarrow> TypeError)
       \<and> Modal_open bd cb (Modal_initialize supplied, count)
           = Inl (case apply_template (options (Modal_initialize supplied)) of
                    Inl e \<Rightarrow> e | Inr html \<Rightarrow> TypeError)"
proof -
  have c: "content (options (Modal_initialize supplied)) = None"
    using fold_no_content [OF assms, of defaults]
    by (simp add: initialize_fresh) (simp add: defaults_def)
  have r: "\<not> isRendered (Modal_initialize supplied)" by (simp add: initialize_fresh)
  show ?thesis using render_no_content [OF c] r by (simp add: Modal_open_def)
qed

theorem render_without_content_fails_witness:
  "no_content_key [Title (JStr ''Confirm''), Template (CustomTemplate (\<lambda>opts. Inr []))]
   \<and> Modal_render (Modal_initialize
        [Title (JStr ''Confirm''), Template (CustomTemplate (\<lambda>opts. Inr []))]) = Inl TypeError
   \<and> Modal_open (Some ''1040'') None
        (Modal_initialize [Title (JStr ''Confirm''), Template (CustomTemplate (\<lambda>opts. Inr []))], 0)
       = Inl TypeError"
proof -
  let ?s = "[Title (JStr ''Confirm''), Template (CustomTemplate (\<lambda>opts. Inr []))]"
  have h: "no_content_key ?s" by (simp add: no_content_key_def)
  have t: "apply_template (options (Modal_initialize ?s)) = Inr []"
    by (simp add: initialize_fresh defaults_def apply_template_def)
  show ?thesis
    using h render_without_content_fails [OF h, of "Some ''1040''" None 0] by (simp add: t)
qed


end
